theory Spec2Isabelle
  imports Main
begin

section \<open>Strings\<close>

text \<open>
  Python's \<open>sub in s\<close> on strings: \<open>sub\<close> occurs as a contiguous run of \<open>s\<close>.
\<close>

fun str_in :: "string \<Rightarrow> string \<Rightarrow> bool" where
  "str_in sub [] = (sub = [])"
| "str_in sub (c # cs) = (take (length sub) (c # cs) = sub \<or> str_in sub cs)"

text \<open>
  \<open>str.isspace\<close> on the characters an 8-bit \<open>char\<close> can hold: TAB..CR, FS..US, the
  blank, NEL and the no-break space.
\<close>

definition py_isspace :: "char \<Rightarrow> bool" where
  "py_isspace c =
     (let n = (of_char c :: nat)
      in (9 \<le> n \<and> n \<le> 13) \<or> (28 \<le> n \<and> n \<le> 32) \<or> n = 133 \<or> n = 160)"

definition strip :: "string \<Rightarrow> string" where
  "strip s = rev (dropWhile py_isspace (rev (dropWhile py_isspace s)))"

text \<open>
  Lower-casing of one character: the letters A..Z move to a..z, every other
  character stays. \<open>py_lower\<close> is \<open>str.lower\<close> and \<open>sql_lower\<close> the store's
  \<open>LOWER()\<close>, both on ASCII text.
\<close>

definition upper_letters :: string where
  "upper_letters = ''ABCDEFGHIJKLMNOPQRSTUVWXYZ''"

definition lower_letters :: string where
  "lower_letters = ''abcdefghijklmnopqrstuvwxyz''"

definition lower_char :: "char \<Rightarrow> char" where
  "lower_char c =
     (case map_of (zip upper_letters lower_letters) c of None \<Rightarrow> c | Some l \<Rightarrow> l)"

definition py_lower :: "string \<Rightarrow> string" where
  "py_lower s = map lower_char s"

definition sql_lower :: "string \<Rightarrow> string" where
  "sql_lower s = map lower_char s"

text \<open>
  Two strings are case variants of each other when they have the same length and differ,
  position by position, at most in the case of an ASCII letter.
\<close>

definition same_letter :: "char \<Rightarrow> char \<Rightarrow> bool" where
  "same_letter a b =
     (a = b \<or> (a, b) \<in> set (zip upper_letters lower_letters)
            \<or> (b, a) \<in> set (zip upper_letters lower_letters))"

definition case_variant :: "string \<Rightarrow> string \<Rightarrow> bool" where
  "case_variant a b = list_all2 same_letter a b"

section \<open>Data model\<close>

datatype json =
    JBool bool
  | JInt int
  | JStr string
  | JList "json list"
  | JObj "(string \<times> json) list"

text \<open>
  What a handler can raise. \<open>HTTPException\<close> carries the status code and the detail;
  the other three are faults of the store's and the cache's client libraries.
\<close>

datatype exn =
    HTTPException nat string
  | OperationalError
  | UniqueViolation
  | RedisConnectionError

text \<open>The status the framework answers with: an unhandled fault is a 500.\<close>

fun http_status :: "exn + 'a \<Rightarrow> nat" where
  "http_status (Inl (HTTPException code detail)) = code"
| "http_status (Inl e) = 500"
| "http_status (Inr v) = 200"

datatype log_entry = Info string | Error string

record user_row =
  user_id :: nat
  user_email :: string
  password_hash :: string
  created_at :: nat

record credentials =
  email :: string
  password :: string

record cookie =
  cookie_name :: string
  cookie_value :: string
  httponly :: bool
  samesite :: string
  secure :: bool

text \<open>
  An aware \<open>datetime\<close>: the civil fields in the zone and the zone's offset from UTC
  in seconds at that instant.
\<close>

record datetime =
  year :: nat
  month :: nat
  day :: nat
  hour :: nat
  minute :: nat
  second :: nat
  microsecond :: nat
  utcoffset :: int

text \<open>
  Everything outside the process: the environment variables, the relational server
  (whether it answers, the \<open>users\<close> rows, the \<open>SERIAL\<close> sequence, the row of
  \<open>site_counters\<close> with \<open>id = 1\<close> as (total, updated_at) or no row, its \<open>now()\<close>),
  the connection strings \<open>psycopg2.connect\<close> has been called with (newest first), the
  cache server (whether it answers, its keys; it holds the decimal text of an integer,
  which \<open>decode_responses\<close> and \<open>int()\<close> read back), the log, and what
  \<open>datetime.now(ZoneInfo(tz))\<close> returns for each zone.
\<close>

record world =
  environ :: "string \<rightharpoonup> string"
  pg_up :: bool
  users :: "user_row list"
  users_id_seq :: nat
  site_counters :: "(int \<times> nat) option"
  pg_now :: nat
  pg_connects :: "string list"
  redis_up :: bool
  redis_kv :: "string \<rightharpoonup> int"
  logged :: "log_entry list"
  wall_clock :: "string \<Rightarrow> datetime"

datatype pg_conn = PgConn string

datatype redis_conn = RedisConn string

text \<open>
  The module's globals. \<open>memory_counters\<close> is the dictionary with the single key
  \<open>visits_total\<close>; no code adds or removes a key, so it is the value at that key.
\<close>

record state =
  JWT_SECRET :: string
  SECURE_COOKIES :: bool
  PG_DSN :: "string option"
  REDIS_URL :: "string option"
  pg :: "pg_conn option"
  r :: "redis_conn option"
  memory_counters :: int

text \<open>
  The two libraries the auth endpoints call: \<open>bcrypt.hashpw\<close> (password, salt),
  \<open>bcrypt.checkpw\<close> (password, hash) and \<open>jwt.encode\<close> of \<open>{"uid": uid}\<close> with a
  secret under HS256.
\<close>

record libs =
  hashpw :: "string \<Rightarrow> string \<Rightarrow> string"
  checkpw :: "string \<Rightarrow> string \<Rightarrow> bool"
  jwt_encode :: "nat \<Rightarrow> string \<Rightarrow> string"

section \<open>Configuration\<close>

text \<open>
  Lines 21-22: a connection string of the managed cloud endpoint that names no
  \<open>sslmode=\<close> gets one. An empty string is false in Python and stays as it is.
\<close>

definition configure_PG_DSN :: "string option \<Rightarrow> string option" where
  "configure_PG_DSN d =
     (case d of
        None \<Rightarrow> None
      | Some dsn \<Rightarrow>
          if dsn \<noteq> [] \<and> str_in ''postgres.database.azure.com'' dsn \<and> \<not> str_in ''sslmode='' dsn
          then Some (strip dsn @ '' sslmode=require'')
          else Some dsn)"

definition getenv :: "(string \<rightharpoonup> string) \<Rightarrow> string \<Rightarrow> string \<Rightarrow> string" where
  "getenv env k dflt = (case env k of None \<Rightarrow> dflt | Some v \<Rightarrow> v)"

section \<open>Connecting\<close>

definition try_connect_pg :: "world \<Rightarrow> state \<Rightarrow> pg_conn option \<times> world \<times> state" where
  "try_connect_pg w s =
     (case PG_DSN s of
        None \<Rightarrow> (None, w, s)
      | Some dsn \<Rightarrow>
          if dsn = [] then (None, w, s)
          else
            let w1 = w\<lparr>pg_connects := dsn # pg_connects w\<rparr>
            in if pg_up w1
               then
                 let w2 = w1\<lparr>site_counters :=
                            (case site_counters w1 of
                               None \<Rightarrow> Some (0, pg_now w1)
                             | Some row \<Rightarrow> Some row)\<rparr>;
                     w3 = w2\<lparr>logged := Info ''PG connected and schema ensured'' # logged w2\<rparr>
                 in (Some (PgConn dsn), w3, s\<lparr>pg := Some (PgConn dsn)\<rparr>)
               else
                 (None, w1\<lparr>logged := Error ''PG connect/init failed'' # logged w1\<rparr>,
                  s\<lparr>pg := None\<rparr>))"

definition try_connect_redis :: "world \<Rightarrow> state \<Rightarrow> redis_conn option \<times> world \<times> state" where
  "try_connect_redis w s =
     (case REDIS_URL s of
        None \<Rightarrow> (None, w, s)
      | Some url \<Rightarrow>
          if url = [] then (None, w, s)
          else if redis_up w
          then (Some (RedisConn url),
                w\<lparr>logged := Info ''Redis connected'' # logged w\<rparr>,
                s\<lparr>r := Some (RedisConn url)\<rparr>)
          else (None,
                w\<lparr>logged := Error ''Redis connect failed'' # logged w\<rparr>,
                s\<lparr>r := None\<rparr>))"

text \<open>
  The module's top level: read the configuration from the environment, start with no
  connection and a counter of zero, then try both connections once.
\<close>

definition startup :: "world \<Rightarrow> world \<times> state" where
  "startup w =
     (let s0 = \<lparr>JWT_SECRET = getenv (environ w) ''JWT_SECRET'' ''change_me'',
                SECURE_COOKIES = (py_lower (getenv (environ w) ''SECURE_COOKIES'' ''false'') = ''true''),
                PG_DSN = configure_PG_DSN (environ w ''PG_DSN''),
                REDIS_URL = environ w ''REDIS_URL'',
                pg = None,
                r = None,
                memory_counters = 0\<rparr>
      in case try_connect_pg w s0 of
           (c1, w1, s1) \<Rightarrow>
             (case try_connect_redis w1 s1 of
                (c2, w2, s2) \<Rightarrow> (w2, s2)))"

section \<open>Health and time\<close>

definition healthz :: "world \<Rightarrow> state \<Rightarrow> (exn + json) \<times> world \<times> state" where
  "healthz w s =
     (Inr (JObj [(''ok'', JBool True),
                 (''pg'', JBool (pg s \<noteq> None)),
                 (''redis'', JBool (r s \<noteq> None))]), w, s)"

definition digit :: "nat \<Rightarrow> char" where
  "digit n = ''0123456789'' ! (n mod 10)"

text \<open>\<open>%02d\<close>, \<open>%04d\<close> and \<open>%06d\<close> on a number that fits the width.\<close>

definition pad2 :: "nat \<Rightarrow> string" where
  "pad2 n = [digit (n div 10), digit n]"

definition pad4 :: "nat \<Rightarrow> string" where
  "pad4 n = [digit (n div 1000), digit (n div 100), digit (n div 10), digit n]"

definition pad6 :: "nat \<Rightarrow> string" where
  "pad6 n = [digit (n div 100000), digit (n div 10000), digit (n div 1000),
             digit (n div 100), digit (n div 10), digit n]"

definition offset_part :: "datetime \<Rightarrow> string" where
  "offset_part d =
     (let off = nat \<bar>utcoffset d\<bar>;
          hh = off div 3600;
          mm = (off mod 3600) div 60;
          ss = off mod 60
      in (if utcoffset d < 0 then ''-'' else ''+'') @ pad2 hh @ '':'' @ pad2 mm @
         (if ss \<noteq> 0 then '':'' @ pad2 ss else []))"

definition local_part :: "datetime \<Rightarrow> string" where
  "local_part d =
     pad4 (year d) @ ''-'' @ pad2 (month d) @ ''-'' @ pad2 (day d) @ ''T'' @
     pad2 (hour d) @ '':'' @ pad2 (minute d) @ '':'' @ pad2 (second d) @
     (if microsecond d \<noteq> 0 then ''.'' @ pad6 (microsecond d) else [])"

definition isoformat :: "datetime \<Rightarrow> string" where
  "isoformat d = local_part d @ offset_part d"

definition cities :: "(string \<times> string) list" where
  "cities =
     [(''New York'', ''America/New_York''),
      (''Beijing'', ''Asia/Shanghai''),
      (''Sydney'', ''Australia/Sydney''),
      (''Delhi'', ''Asia/Kolkata'')]"

definition time_entry :: "world \<Rightarrow> string \<times> string \<Rightarrow> json" where
  "time_entry w c =
     (case c of (label, tz) \<Rightarrow>
        JObj [(''label'', JStr label), (''tz'', JStr tz),
              (''iso'', JStr (isoformat (wall_clock w tz)))])"

definition time_now :: "world \<Rightarrow> state \<Rightarrow> (exn + json) \<times> world \<times> state" where
  "time_now w s = (Inr (JObj [(''times'', JList (map (time_entry w) cities))]), w, s)"

section \<open>Registration and login\<close>

definition require_pg :: "world \<Rightarrow> state \<Rightarrow> (exn + unit) \<times> world \<times> state" where
  "require_pg w s =
     (case (if pg s = None
            then (case try_connect_pg w s of (c, w1, s1) \<Rightarrow> (w1, s1))
            else (w, s)) of
        (w1, s1) \<Rightarrow>
          if pg s1 = None
          then (Inl (HTTPException 503 ''PostgreSQL is not configured/available.''), w1, s1)
          else (Inr (), w1, s1))"

text \<open>
  \<open>INSERT INTO users(email, password_hash)\<close> and the commit: the sequence gives the
  identifier, the \<open>UNIQUE\<close> column refuses an email that a row already has.
\<close>

definition insert_user :: "string \<Rightarrow> string \<Rightarrow> world \<Rightarrow> (exn + unit) \<times> world" where
  "insert_user em ph w =
     (if \<not> pg_up w then (Inl OperationalError, w)
      else
        let w1 = w\<lparr>users_id_seq := users_id_seq w + 1\<rparr>
        in if \<exists>u \<in> set (users w). user_email u = em
           then (Inl UniqueViolation, w1)
           else (Inr (),
                 w1\<lparr>users := users w @
                    [\<lparr>user_id = users_id_seq w, user_email = em,
                      password_hash = ph, created_at = pg_now w\<rparr>]\<rparr>))"

text \<open>
  \<open>SELECT id, password_hash FROM users WHERE email = ...\<close> and \<open>fetchone\<close>: the first
  matching row, if any.
\<close>

definition select_user :: "string \<Rightarrow> world \<Rightarrow> exn + user_row option" where
  "select_user em w =
     (if \<not> pg_up w then Inl OperationalError
      else Inr (find (\<lambda>u. user_email u = em) (users w)))"

text \<open>\<open>salt\<close> is what \<open>bcrypt.gensalt()\<close> returns in this call.\<close>

definition register :: "libs \<Rightarrow> string \<Rightarrow> credentials \<Rightarrow> world \<Rightarrow> state \<Rightarrow> (exn + json) \<times> world \<times> state" where
  "register L salt body w s =
     (case require_pg w s of
        (Inl e, w1, s1) \<Rightarrow> (Inl e, w1, s1)
      | (Inr u, w1, s1) \<Rightarrow>
          let pw = hashpw L (password body) salt
          in case insert_user (sql_lower (email body)) pw w1 of
               (Inl e, w2) \<Rightarrow> (Inl e, w2, s1)
             | (Inr u2, w2) \<Rightarrow> (Inr (JObj [(''ok'', JBool True)]), w2, s1))"

text \<open>The second component of the answer is the cookies set on the response.\<close>

definition login :: "libs \<Rightarrow> credentials \<Rightarrow> world \<Rightarrow> state \<Rightarrow> (exn + json \<times> cookie list) \<times> world \<times> state" where
  "login L body w s =
     (case require_pg w s of
        (Inl e, w1, s1) \<Rightarrow> (Inl e, w1, s1)
      | (Inr u, w1, s1) \<Rightarrow>
          (case select_user (sql_lower (email body)) w1 of
             Inl e \<Rightarrow> (Inl e, w1, s1)
           | Inr None \<Rightarrow> (Inr (JObj [(''ok'', JBool False)], []), w1, s1)
           | Inr (Some row) \<Rightarrow>
               if \<not> checkpw L (password body) (password_hash row)
               then (Inr (JObj [(''ok'', JBool False)], []), w1, s1)
               else
                 let token = jwt_encode L (user_id row) (JWT_SECRET s1)
                 in (Inr (JObj [(''ok'', JBool True)],
                          [\<lparr>cookie_name = ''access_token'', cookie_value = token,
                            httponly = True, samesite = ''Lax'',
                            secure = SECURE_COOKIES s1\<rparr>]), w1, s1)))"

section \<open>Visit counter\<close>

definition redis_incr :: "string \<Rightarrow> world \<Rightarrow> (exn + unit) \<times> world" where
  "redis_incr k w =
     (if \<not> redis_up w then (Inl RedisConnectionError, w)
      else (Inr (),
            w\<lparr>redis_kv := (redis_kv w)(k \<mapsto> (case redis_kv w k of None \<Rightarrow> 1 | Some v \<Rightarrow> v + 1))\<rparr>))"

definition redis_get :: "string \<Rightarrow> world \<Rightarrow> exn + int option" where
  "redis_get k w = (if \<not> redis_up w then Inl RedisConnectionError else Inr (redis_kv w k))"

text \<open>\<open>UPDATE site_counters SET total=total+1, updated_at=now() WHERE id=1\<close> and the commit.\<close>

definition update_site_counters :: "world \<Rightarrow> (exn + unit) \<times> world" where
  "update_site_counters w =
     (if \<not> pg_up w then (Inl OperationalError, w)
      else (Inr (),
            w\<lparr>site_counters :=
                (case site_counters w of
                   None \<Rightarrow> None
                 | Some (t, u) \<Rightarrow> Some (t + 1, pg_now w))\<rparr>))"

definition select_site_counters :: "world \<Rightarrow> exn + int option" where
  "select_site_counters w =
     (if \<not> pg_up w then Inl OperationalError
      else Inr (case site_counters w of None \<Rightarrow> None | Some (t, u) \<Rightarrow> Some t))"

definition visit :: "world \<Rightarrow> state \<Rightarrow> (exn + json) \<times> world \<times> state" where
  "visit w s =
     (case (if r s \<noteq> None
            then (case redis_incr ''visits:total'' w of (res, w1) \<Rightarrow> (res, w1, s))
            else (Inr (), w, s\<lparr>memory_counters := memory_counters s + 1\<rparr>)) of
        (Inl e, w1, s1) \<Rightarrow> (Inl e, w1, s1)
      | (Inr u, w1, s1) \<Rightarrow>
          if pg s1 \<noteq> None
          then (case update_site_counters w1 of
                  (Inl e, w2) \<Rightarrow> (Inl e, w2, s1)
                | (Inr u2, w2) \<Rightarrow> (Inr (JObj [(''ok'', JBool True)]), w2, s1))
          else (Inr (JObj [(''ok'', JBool True)]), w1, s1))"

text \<open>
  The rest of \<open>total\<close> after the cache gave no value: the store's row, then the
  process's own counter.
\<close>

definition total_from_pg :: "world \<Rightarrow> state \<Rightarrow> (exn + json) \<times> world \<times> state" where
  "total_from_pg w s =
     (if pg s \<noteq> None
      then (case select_site_counters w of
              Inl e \<Rightarrow> (Inl e, w, s)
            | Inr (Some t) \<Rightarrow> (Inr (JObj [(''total'', JInt t)]), w, s)
            | Inr None \<Rightarrow> (Inr (JObj [(''total'', JInt (memory_counters s))]), w, s))
      else (Inr (JObj [(''total'', JInt (memory_counters s))]), w, s))"

definition total :: "world \<Rightarrow> state \<Rightarrow> (exn + json) \<times> world \<times> state" where
  "total w s =
     (if r s \<noteq> None
      then (case redis_get ''visits:total'' w of
              Inl e \<Rightarrow> (Inl e, w, s)
            | Inr (Some v) \<Rightarrow> (Inr (JObj [(''total'', JInt v)]), w, s)
            | Inr None \<Rightarrow> total_from_pg w s)
      else total_from_pg w s)"

section \<open>Notions used in the statements\<close>

definition is_digit :: "char \<Rightarrow> bool" where
  "is_digit c = (c \<in> set ''0123456789'')"

text \<open>A UTC offset as \<open>isoformat\<close> writes it: sign, hours, colon, minutes, and seconds if any.\<close>

fun hhmm :: "string \<Rightarrow> bool" where
  "hhmm [sg, h1, h2, c, m1, m2] =
     ((sg = CHR ''+'' \<or> sg = CHR ''-'') \<and> is_digit h1 \<and> is_digit h2 \<and> c = CHR '':'' \<and>
      is_digit m1 \<and> is_digit m2)"
| "hhmm s = False"

fun hhmmss :: "string \<Rightarrow> bool" where
  "hhmmss [sg, h1, h2, c, m1, m2, c2, s1, s2] =
     (hhmm [sg, h1, h2, c, m1, m2] \<and> c2 = CHR '':'' \<and> is_digit s1 \<and> is_digit s2)"
| "hhmmss s = False"

definition offset_bearing :: "string \<Rightarrow> bool" where
  "offset_bearing s = (hhmm (drop (length s - 6) s) \<or> hhmmss (drop (length s - 9) s))"

text \<open>The connection string the process uses, as a function of the configured one.\<close>

definition effective_dsn :: "string \<Rightarrow> string" where
  "effective_dsn d =
     (if str_in ''postgres.database.azure.com'' d \<and> \<not> str_in ''sslmode='' d
      then strip d @ '' sslmode=require''
      else d)"

section \<open>Scenarios\<close>

definition demo_clock :: "string \<Rightarrow> datetime" where
  "demo_clock tz =
     \<lparr>year = 2024, month = 3, day = 9, hour = 7, minute = 5, second = 1, microsecond = 0,
      utcoffset = (if tz = ''Asia/Kolkata'' then 19800 else 0)\<rparr>"

definition demo_world :: world where
  "demo_world =
     \<lparr>environ = Map.empty, pg_up = True, users = [], users_id_seq = 1,
      site_counters = Some (0, 0), pg_now = 5, pg_connects = [], redis_up = True,
      redis_kv = Map.empty, logged = [], wall_clock = demo_clock\<rparr>"

definition demo_state :: state where
  "demo_state =
     \<lparr>JWT_SECRET = ''change_me'', SECURE_COOKIES = False, PG_DSN = Some ''host=db'',
      REDIS_URL = Some ''redis://cache'', pg = Some (PgConn ''host=db''),
      r = Some (RedisConn ''redis://cache''), memory_counters = 0\<rparr>"

text \<open>The store answers, but the process holds no connection to it.\<close>

definition cold_state :: state where
  "cold_state = demo_state\<lparr>pg := None\<rparr>"

text \<open>A world in which the three counters hold three different numbers.\<close>

definition counted_world :: world where
  "counted_world =
     demo_world\<lparr>redis_kv := [''visits:total'' \<mapsto> 7], site_counters := Some (3, 2)\<rparr>"

definition counted_state :: state where
  "counted_state = demo_state\<lparr>memory_counters := 1\<rparr>"

definition azure_world :: world where
  "azure_world =
     demo_world\<lparr>environ := [''PG_DSN'' \<mapsto> '' host=x.postgres.database.azure.com user=u '']\<rparr>"

text \<open>The process holds a cache connection and the cache server has stopped answering.\<close>

definition cache_down_world :: world where
  "cache_down_world = counted_world\<lparr>redis_up := False\<rparr>"

definition store_down_world :: world where
  "store_down_world = counted_world\<lparr>pg_up := False\<rparr>"

text \<open>
  A stand-in for the two libraries, to run the endpoints on: the hash is the two-character
  salt followed by the password, the token the secret followed by one mark per unit of
  the identifier.
\<close>

definition demo_libs :: libs where
  "demo_libs =
     \<lparr>hashpw = (\<lambda>p salt. salt @ p),
      checkpw = (\<lambda>p h. drop 2 h = p),
      jwt_encode = (\<lambda>uid secret. secret @ '':'' @ replicate uid (CHR ''u''))\<rparr>"

definition demo_creds :: credentials where
  "demo_creds = \<lparr>email = ''A@x.com'', password = ''secret''\<rparr>"

text \<open>
  Two auth calls of a process started with no \<open>PG_DSN\<close> in the environment; between
  them the variable is set to a connection string under which the store answers.
\<close>

definition first_call :: "(exn + json \<times> cookie list) \<times> world \<times> state" where
  "first_call = login demo_libs demo_creds (fst (startup demo_world)) (snd (startup demo_world))"

definition switched_world :: world where
  "switched_world = (fst (snd first_call))\<lparr>environ := [''PG_DSN'' \<mapsto> ''host=db'']\<rparr>"

definition second_call :: "(exn + json \<times> cookie list) \<times> world \<times> state" where
  "second_call = login demo_libs demo_creds switched_world (snd (snd first_call))"

text \<open>A store that answers and has no \<open>site_counters\<close> row yet.\<close>

definition rowless_world :: world where
  "rowless_world = demo_world\<lparr>site_counters := None\<rparr>"

text \<open>A store with one user, registered as \<open>a@x.com\<close> with the password \<open>secret\<close>.\<close>

definition stored_world :: world where
  "stored_world =
     demo_world\<lparr>users := [\<lparr>user_id = 1, user_email = ''a@x.com'',
                            password_hash = ''s1secret'', created_at = 0\<rparr>],
                users_id_seq := 2\<rparr>"

section \<open>Strings\<close>

lemma str_in_iff: "str_in sub s \<longleftrightarrow> (\<exists>p q. s = p @ sub @ q)"
proof (induction s)
  case Nil
  then show ?case by auto
next
  case (Cons c cs)
  show ?case
  proof
    assume "str_in sub (c # cs)"
    then consider "take (length sub) (c # cs) = sub" | "str_in sub cs" by auto
    then show "\<exists>p q. c # cs = p @ sub @ q"
    proof cases
      case 1
      then have "c # cs = [] @ sub @ drop (length sub) (c # cs)"
        by (metis append_Nil append_take_drop_id)
      then show ?thesis by blast
    next
      case 2
      then obtain p q where "cs = p @ sub @ q" using Cons.IH by auto
      then have "c # cs = (c # p) @ sub @ q" by simp
      then show ?thesis by blast
    qed
  next
    assume "\<exists>p q. c # cs = p @ sub @ q"
    then obtain p q where pq: "c # cs = p @ sub @ q" by auto
    show "str_in sub (c # cs)"
    proof (cases p)
      case Nil
      then have "take (length sub) (c # cs) = sub" using pq by simp
      then show ?thesis by simp
    next
      case (Cons a p')
      then have "cs = p' @ sub @ q" using pq by simp
      then have "str_in sub cs" using Cons.IH by auto
      then show ?thesis by simp
    qed
  qed
qed

lemma distinct_upper: "distinct upper_letters"
  by (simp add: upper_letters_def)

lemma disjoint_letters: "set lower_letters \<inter> set upper_letters = {}"
  by (simp add: upper_letters_def lower_letters_def)

lemma length_letters: "length upper_letters = length lower_letters"
  by (simp add: upper_letters_def lower_letters_def)

lemma lower_char_pair:
  assumes "(a, b) \<in> set (zip upper_letters lower_letters)"
  shows "lower_char a = b" and "lower_char b = b"
proof -
  have "distinct (map fst (zip upper_letters lower_letters))"
    using distinct_upper length_letters by simp
  then have "map_of (zip upper_letters lower_letters) a = Some b"
    using assms by (rule map_of_is_SomeI)
  then show "lower_char a = b" by (simp add: lower_char_def)
  have "b \<in> set lower_letters" using assms by (rule set_zip_rightD)
  then have "b \<notin> set upper_letters" using disjoint_letters by blast
  then have "b \<notin> fst ` set (zip upper_letters lower_letters)"
    using length_letters by (metis map_fst_zip set_map)
  then have "map_of (zip upper_letters lower_letters) b = None"
    by (rule iffD2 [OF map_of_eq_None_iff])
  then show "lower_char b = b" by (simp add: lower_char_def)
qed

lemma same_letter_lower: "same_letter a b \<Longrightarrow> lower_char a = lower_char b"
  unfolding same_letter_def
  by (elim disjE) (simp_all add: lower_char_pair)

lemma case_variant_lower: "case_variant a b \<Longrightarrow> sql_lower a = sql_lower b"
  unfolding case_variant_def sql_lower_def
  by (induction rule: list_all2_induct) (simp_all add: same_letter_lower)

section \<open>Time\<close>

lemma is_digit_digit: "is_digit (digit n)"
  unfolding is_digit_def digit_def by (rule nth_mem) simp

lemma offset_part_shape: "hhmm (offset_part d) \<or> hhmmss (offset_part d)"
  by (simp add: offset_part_def Let_def pad2_def is_digit_digit)

lemma hhmm_length: "hhmm s \<Longrightarrow> length s = 6"
  by (induction s rule: hhmm.induct) simp_all

lemma hhmmss_length: "hhmmss s \<Longrightarrow> length s = 9"
  by (induction s rule: hhmmss.induct) simp_all

lemma isoformat_offset_bearing: "offset_bearing (isoformat d)"
proof -
  from offset_part_shape [of d] show ?thesis
  proof
    assume h: "hhmm (offset_part d)"
    then have "length (offset_part d) = 6" by (rule hhmm_length)
    then have "drop (length (isoformat d) - 6) (isoformat d) = offset_part d"
      by (simp add: isoformat_def)
    with h show ?thesis by (simp add: offset_bearing_def)
  next
    assume h: "hhmmss (offset_part d)"
    then have "length (offset_part d) = 9" by (rule hhmmss_length)
    then have "drop (length (isoformat d) - 9) (isoformat d) = offset_part d"
      by (simp add: isoformat_def)
    with h show ?thesis by (simp add: offset_bearing_def)
  qed
qed

lemma isoformat_demo_utc:
  "tz \<noteq> ''Asia/Kolkata'' \<Longrightarrow> isoformat (demo_clock tz) = ''2024-03-09T07:05:01+00:00''"
  by (simp add: isoformat_def local_part_def offset_part_def demo_clock_def
      pad2_def pad4_def digit_def)

lemma isoformat_demo_delhi:
  "isoformat (demo_clock ''Asia/Kolkata'') = ''2024-03-09T07:05:01+05:30''"
  by (simp add: isoformat_def local_part_def offset_part_def demo_clock_def
      pad2_def pad4_def digit_def)

text \<open>
  C7. Every call of the time endpoint answers with exactly four entries, in the order
  New York, Beijing, Sydney, Delhi; each entry has its fixed label and zone identifier
  and the ISO rendering of what the clock gives for that zone, and every such rendering
  ends in a UTC offset. The call changes nothing.
\<close>

theorem time_now_four_entries:
  "time_now w s =
     (Inr (JObj [(''times'', JList
        [JObj [(''label'', JStr ''New York''), (''tz'', JStr ''America/New_York''),
               (''iso'', JStr (isoformat (wall_clock w ''America/New_York'')))],
         JObj [(''label'', JStr ''Beijing''), (''tz'', JStr ''Asia/Shanghai''),
               (''iso'', JStr (isoformat (wall_clock w ''Asia/Shanghai'')))],
         JObj [(''label'', JStr ''Sydney''), (''tz'', JStr ''Australia/Sydney''),
               (''iso'', JStr (isoformat (wall_clock w ''Australia/Sydney'')))],
         JObj [(''label'', JStr ''Delhi''), (''tz'', JStr ''Asia/Kolkata''),
               (''iso'', JStr (isoformat (wall_clock w ''Asia/Kolkata'')))]])]), w, s)
   \<and> (\<forall>tz. offset_bearing (isoformat (wall_clock w tz)))"
  by (simp add: time_now_def cities_def time_entry_def isoformat_offset_bearing)

theorem time_now_four_entries_witness:
  "fst (time_now demo_world demo_state) =
     Inr (JObj [(''times'', JList
        [JObj [(''label'', JStr ''New York''), (''tz'', JStr ''America/New_York''),
               (''iso'', JStr ''2024-03-09T07:05:01+00:00'')],
         JObj [(''label'', JStr ''Beijing''), (''tz'', JStr ''Asia/Shanghai''),
               (''iso'', JStr ''2024-03-09T07:05:01+00:00'')],
         JObj [(''label'', JStr ''Sydney''), (''tz'', JStr ''Australia/Sydney''),
               (''iso'', JStr ''2024-03-09T07:05:01+00:00'')],
         JObj [(''label'', JStr ''Delhi''), (''tz'', JStr ''Asia/Kolkata''),
               (''iso'', JStr ''2024-03-09T07:05:01+05:30'')]])])
   \<and> offset_bearing ''2024-03-09T07:05:01+05:30''"
  (is "?A \<and> ?B")
proof -
  have wc: "wall_clock demo_world = demo_clock" by (simp add: demo_world_def)
  have a: "isoformat (demo_clock ''America/New_York'') = ''2024-03-09T07:05:01+00:00''"
    by (rule isoformat_demo_utc) simp
  have b: "isoformat (demo_clock ''Asia/Shanghai'') = ''2024-03-09T07:05:01+00:00''"
    by (rule isoformat_demo_utc) simp
  have c: "isoformat (demo_clock ''Australia/Sydney'') = ''2024-03-09T07:05:01+00:00''"
    by (rule isoformat_demo_utc) simp
  note T = time_now_four_entries [of demo_world demo_state]
  from T have t: "time_now demo_world demo_state =
     (Inr (JObj [(''times'', JList
        [JObj [(''label'', JStr ''New York''), (''tz'', JStr ''America/New_York''),
               (''iso'', JStr ''2024-03-09T07:05:01+00:00'')],
         JObj [(''label'', JStr ''Beijing''), (''tz'', JStr ''Asia/Shanghai''),
               (''iso'', JStr ''2024-03-09T07:05:01+00:00'')],
         JObj [(''label'', JStr ''Sydney''), (''tz'', JStr ''Australia/Sydney''),
               (''iso'', JStr ''2024-03-09T07:05:01+00:00'')],
         JObj [(''label'', JStr ''Delhi''), (''tz'', JStr ''Asia/Kolkata''),
               (''iso'', JStr ''2024-03-09T07:05:01+05:30'')]])]), demo_world, demo_state)"
    unfolding wc a b c isoformat_demo_delhi by (rule conjunct1)
  from T have o: "offset_bearing (isoformat (wall_clock demo_world ''Asia/Kolkata''))"
    by blast
  from o have ob: ?B
    unfolding wc isoformat_demo_delhi .
  from t have ?A by (simp only: fst_conv)
  then show ?thesis using ob by (rule conjI)
qed

section \<open>Connecting\<close>

lemma try_connect_pg_unset:
  "PG_DSN s = None \<or> PG_DSN s = Some [] \<Longrightarrow> try_connect_pg w s = (None, w, s)"
  by (auto simp: try_connect_pg_def)

lemma try_connect_pg_up:
  "PG_DSN s = Some dsn \<Longrightarrow> dsn \<noteq> [] \<Longrightarrow> pg_up w \<Longrightarrow>
   try_connect_pg w s =
     (Some (PgConn dsn),
      w\<lparr>pg_connects := dsn # pg_connects w,
        site_counters := (case site_counters w of None \<Rightarrow> Some (0, pg_now w) | Some row \<Rightarrow> Some row),
        logged := Info ''PG connected and schema ensured'' # logged w\<rparr>,
      s\<lparr>pg := Some (PgConn dsn)\<rparr>)"
  by (cases "site_counters w") (simp_all add: try_connect_pg_def Let_def)

lemma try_connect_pg_down:
  "PG_DSN s = Some dsn \<Longrightarrow> dsn \<noteq> [] \<Longrightarrow> \<not> pg_up w \<Longrightarrow>
   try_connect_pg w s =
     (None,
      w\<lparr>pg_connects := dsn # pg_connects w,
        logged := Error ''PG connect/init failed'' # logged w\<rparr>,
      s\<lparr>pg := None\<rparr>)"
  by (simp add: try_connect_pg_def Let_def)

lemma try_connect_pg_connects:
  "PG_DSN s = Some dsn \<Longrightarrow> dsn \<noteq> [] \<Longrightarrow>
   pg_connects (fst (snd (try_connect_pg w s))) = dsn # pg_connects w"
  by (cases "pg_up w") (simp_all add: try_connect_pg_up try_connect_pg_down)

lemma try_connect_pg_config:
  "PG_DSN (snd (snd (try_connect_pg w s))) = PG_DSN s"
  by (simp add: try_connect_pg_def Let_def split: option.splits)

lemma try_connect_redis_config:
  "PG_DSN (snd (snd (try_connect_redis w s))) = PG_DSN s"
  by (simp add: try_connect_redis_def split: option.splits)

lemma try_connect_redis_connects:
  "pg_connects (fst (snd (try_connect_redis w s))) = pg_connects w"
  by (simp add: try_connect_redis_def split: option.splits)

lemma startup_unfold:
  "startup w =
     (fst (snd (try_connect_redis (fst (snd (try_connect_pg w s0))) (snd (snd (try_connect_pg w s0))))),
      snd (snd (try_connect_redis (fst (snd (try_connect_pg w s0))) (snd (snd (try_connect_pg w s0))))))"
  if "s0 = \<lparr>JWT_SECRET = getenv (environ w) ''JWT_SECRET'' ''change_me'',
             SECURE_COOKIES = (py_lower (getenv (environ w) ''SECURE_COOKIES'' ''false'') = ''true''),
             PG_DSN = configure_PG_DSN (environ w ''PG_DSN''),
             REDIS_URL = environ w ''REDIS_URL'',
             pg = None, r = None, memory_counters = 0\<rparr>"
  unfolding that startup_def Let_def by (simp add: split_beta)

lemma startup_PG_DSN: "PG_DSN (snd (startup w)) = configure_PG_DSN (environ w ''PG_DSN'')"
  by (simp add: startup_unfold [OF refl] try_connect_redis_config try_connect_pg_config)

lemma configure_effective: "configure_PG_DSN (Some d) = Some (effective_dsn d)"
  by (cases d) (simp_all add: configure_PG_DSN_def effective_dsn_def)

lemma effective_dsn_nonempty: "d \<noteq> [] \<Longrightarrow> effective_dsn d \<noteq> []"
  by (simp add: effective_dsn_def)

text \<open>
  C8. When the environment configures the connection string \<open>d\<close>, the process keeps
  \<open>d\<close> with surrounding whitespace stripped and \<open>sslmode=require\<close> appended if \<open>d\<close>
  contains \<open>postgres.database.azure.com\<close> and no \<open>sslmode=\<close>, and \<open>d\<close> itself
  otherwise; the connection made at start-up and every later attempt to connect pass
  exactly that string to the driver.
\<close>

theorem PG_DSN_sslmode_appended:
  assumes "environ w ''PG_DSN'' = Some d"
  shows "PG_DSN (snd (startup w)) = Some (effective_dsn d) \<and>
         (d \<noteq> [] \<longrightarrow> pg_connects (fst (startup w)) = effective_dsn d # pg_connects w) \<and>
         (\<forall>w' s'. d \<noteq> [] \<and> PG_DSN s' = PG_DSN (snd (startup w)) \<longrightarrow>
            pg_connects (fst (snd (try_connect_pg w' s'))) = effective_dsn d # pg_connects w')"
proof -
  have cfg: "PG_DSN (snd (startup w)) = Some (effective_dsn d)"
    using assms by (simp add: startup_PG_DSN configure_effective)
  have first: "pg_connects (fst (startup w)) = effective_dsn d # pg_connects w" if "d \<noteq> []"
  proof -
    have ne: "effective_dsn d \<noteq> []" using that by (rule effective_dsn_nonempty)
    show ?thesis
      using assms ne
      by (simp add: startup_unfold [OF refl] try_connect_redis_connects
          try_connect_pg_connects configure_effective)
  qed
  have later: "pg_connects (fst (snd (try_connect_pg w' s'))) = effective_dsn d # pg_connects w'"
    if "d \<noteq> []" "PG_DSN s' = PG_DSN (snd (startup w))" for w' s'
    using that cfg by (simp add: try_connect_pg_connects effective_dsn_nonempty)
  from cfg first later show ?thesis by blast
qed

lemma azure_effective:
  "effective_dsn '' host=x.postgres.database.azure.com user=u '' =
     ''host=x.postgres.database.azure.com user=u sslmode=require''"
  by (simp add: effective_dsn_def strip_def py_isspace_def)

theorem PG_DSN_sslmode_appended_witness:
  "PG_DSN (snd (startup azure_world)) =
     Some ''host=x.postgres.database.azure.com user=u sslmode=require'' \<and>
   pg_connects (fst (startup azure_world)) =
     [''host=x.postgres.database.azure.com user=u sslmode=require''] \<and>
   effective_dsn ''host=db sslmode=disable'' = ''host=db sslmode=disable''"
proof -
  have e: "environ azure_world ''PG_DSN'' = Some '' host=x.postgres.database.azure.com user=u ''"
    by (simp add: azure_world_def)
  have c: "pg_connects azure_world = []"
    by (simp add: azure_world_def demo_world_def)
  have p: "effective_dsn ''host=db sslmode=disable'' = ''host=db sslmode=disable''"
    by (simp add: effective_dsn_def)
  from PG_DSN_sslmode_appended [OF e] p show ?thesis
    by (simp add: azure_effective c)
qed

section \<open>Health\<close>

text \<open>
  C10. The health endpoint answers with \<open>ok\<close> and the two availability flags as they
  are, and leaves the world and the process state as they were: it starts no
  connection. In particular, when the process holds no connection to a store that is
  reachable and configured, the answer still says the store is unavailable and the
  flag stays so, although the check the auth endpoints make would connect in the very
  same situation.
\<close>

theorem healthz_pure_read:
  "healthz w s =
     (Inr (JObj [(''ok'', JBool True), (''pg'', JBool (pg s \<noteq> None)),
                 (''redis'', JBool (r s \<noteq> None))]), w, s)
   \<and> (pg s = None \<and> pg_up w \<and> PG_DSN s = Some dsn \<and> dsn \<noteq> [] \<longrightarrow>
        pg (snd (snd (healthz w s))) = None \<and>
        pg_connects (fst (snd (healthz w s))) = pg_connects w \<and>
        pg (snd (snd (require_pg w s))) = Some (PgConn dsn))"
  by (simp add: healthz_def require_pg_def try_connect_pg_def Let_def)

theorem healthz_pure_read_witness:
  "healthz demo_world cold_state =
     (Inr (JObj [(''ok'', JBool True), (''pg'', JBool False), (''redis'', JBool True)]),
      demo_world, cold_state)
   \<and> pg (snd (snd (require_pg demo_world cold_state))) = Some (PgConn ''host=db'')"
  using healthz_pure_read [of demo_world cold_state "''host=db''"]
  by (simp add: cold_state_def demo_state_def demo_world_def)

section \<open>Visit counter\<close>

text \<open>
  C2, as the code has it. When every connection that \<open>total\<close> queries answers, it
  returns the cache's value for \<open>visits:total\<close> if the process holds a cache
  connection and the key is present; otherwise the total of the \<open>site_counters\<close> row
  if the process holds a store connection and the row exists; otherwise the process's
  own counter. Exactly one source is read into the answer. When the cache connection
  is held and the cache does not answer, or when the cache gave no value and the store
  connection is held and the store does not answer, the call ends with that fault and
  returns no total: it does not go on to the next source. Nothing is changed in any
  case.
\<close>

theorem total_first_available:
  "((r s \<noteq> None \<longrightarrow> redis_up w) \<and>
    (pg s \<noteq> None \<and> (r s = None \<or> redis_kv w ''visits:total'' = None) \<longrightarrow> pg_up w) \<longrightarrow>
      total w s =
        (Inr (JObj [(''total'', JInt
           (case (if r s \<noteq> None then redis_kv w ''visits:total'' else None) of
              Some v \<Rightarrow> v
            | None \<Rightarrow>
                (case (if pg s \<noteq> None then site_counters w else None) of
                   Some (t, u) \<Rightarrow> t
                 | None \<Rightarrow> memory_counters s)))]), w, s)) \<and>
   (r s \<noteq> None \<and> \<not> redis_up w \<longrightarrow> total w s = (Inl RedisConnectionError, w, s)) \<and>
   (pg s \<noteq> None \<and> \<not> pg_up w \<and>
    (r s = None \<or> (redis_up w \<and> redis_kv w ''visits:total'' = None)) \<longrightarrow>
      total w s = (Inl OperationalError, w, s))"
  by (auto simp: total_def total_from_pg_def redis_get_def select_site_counters_def
      split: option.splits)

theorem total_first_available_witness:
  "fst (total counted_world counted_state) = Inr (JObj [(''total'', JInt 7)]) \<and>
   fst (total counted_world (counted_state\<lparr>r := None\<rparr>)) = Inr (JObj [(''total'', JInt 3)]) \<and>
   fst (total counted_world (counted_state\<lparr>r := None, pg := None\<rparr>)) =
     Inr (JObj [(''total'', JInt 1)]) \<and>
   fst (total store_down_world (counted_state\<lparr>r := None\<rparr>)) = Inl OperationalError"
  using total_first_available [of counted_state counted_world]
    total_first_available [of "counted_state\<lparr>r := None\<rparr>" counted_world]
    total_first_available [of "counted_state\<lparr>r := None, pg := None\<rparr>" counted_world]
    total_first_available [of "counted_state\<lparr>r := None\<rparr>" store_down_world]
  by (simp add: counted_world_def counted_state_def demo_world_def demo_state_def
      store_down_world_def)

text \<open>
  C2 as stated fails. The process holds the cache connection and the store connection;
  the cache holds \<open>visits:total\<close>, the store answers and its row exists with total 3,
  the process's own counter is 0, and the cache server does not answer. Then \<open>total\<close>
  returns no value at all, neither the cache's nor the store's nor the counter's: it
  ends with the cache's fault.
\<close>

theorem total_cache_down_counterexample:
  "r demo_state = Some (RedisConn ''redis://cache'') \<and>
   redis_kv cache_down_world ''visits:total'' = Some 7 \<and>
   pg demo_state = Some (PgConn ''host=db'') \<and>
   pg_up cache_down_world \<and>
   site_counters cache_down_world = Some (3, 2) \<and>
   memory_counters demo_state = 0 \<and>
   total cache_down_world demo_state =
     (Inl RedisConnectionError, cache_down_world, demo_state)"
  by (simp add: total_def redis_get_def cache_down_world_def counted_world_def
      demo_world_def demo_state_def)

text \<open>
  C3, as the code has it. When every connection the process holds answers, \<open>visit\<close>
  acknowledges and adds one to exactly one of the cache key \<open>visits:total\<close> (when the
  process holds a cache connection; an absent key becomes 1) and the process's own
  counter (otherwise); besides, whenever the process holds a store connection, it adds
  one to the total of the \<open>site_counters\<close> row and sets its \<open>updated_at\<close> to the
  store's clock; nothing else changes. When the cache connection is held and the cache
  does not answer, the call ends with that fault and nothing is incremented, the store
  row included. When the store connection is held and the store does not answer, the
  call ends with that fault after the cache key or the process's own counter has been
  incremented.
\<close>

theorem visit_increments:
  "((r s \<noteq> None \<longrightarrow> redis_up w) \<and> (pg s \<noteq> None \<longrightarrow> pg_up w) \<longrightarrow>
      visit w s =
        (Inr (JObj [(''ok'', JBool True)]),
         w\<lparr>redis_kv :=
             (if r s \<noteq> None
              then (redis_kv w)(''visits:total'' \<mapsto>
                     (case redis_kv w ''visits:total'' of None \<Rightarrow> 1 | Some v \<Rightarrow> v + 1))
              else redis_kv w),
           site_counters :=
             (if pg s \<noteq> None
              then map_option (\<lambda>(t, u). (t + 1, pg_now w)) (site_counters w)
              else site_counters w)\<rparr>,
         s\<lparr>memory_counters :=
             (if r s \<noteq> None then memory_counters s else memory_counters s + 1)\<rparr>)) \<and>
   (r s \<noteq> None \<and> \<not> redis_up w \<longrightarrow> visit w s = (Inl RedisConnectionError, w, s)) \<and>
   (pg s \<noteq> None \<and> \<not> pg_up w \<and> (r s \<noteq> None \<longrightarrow> redis_up w) \<longrightarrow>
      visit w s =
        (Inl OperationalError,
         w\<lparr>redis_kv :=
             (if r s \<noteq> None
              then (redis_kv w)(''visits:total'' \<mapsto>
                     (case redis_kv w ''visits:total'' of None \<Rightarrow> 1 | Some v \<Rightarrow> v + 1))
              else redis_kv w)\<rparr>,
         s\<lparr>memory_counters :=
             (if r s \<noteq> None then memory_counters s else memory_counters s + 1)\<rparr>))"
  by (auto simp: visit_def redis_incr_def update_site_counters_def
      split: option.splits prod.splits)

theorem visit_increments_witness:
  "redis_kv (fst (snd (visit counted_world counted_state))) ''visits:total'' = Some 8 \<and>
   site_counters (fst (snd (visit counted_world counted_state))) = Some (4, 5) \<and>
   memory_counters (snd (snd (visit counted_world counted_state))) = 1 \<and>
   redis_kv (fst (snd (visit counted_world (counted_state\<lparr>r := None\<rparr>)))) ''visits:total'' = Some 7 \<and>
   memory_counters (snd (snd (visit counted_world (counted_state\<lparr>r := None\<rparr>)))) = 2 \<and>
   fst (visit store_down_world counted_state) = Inl OperationalError \<and>
   redis_kv (fst (snd (visit store_down_world counted_state))) ''visits:total'' = Some 8"
  using visit_increments [of counted_state counted_world]
    visit_increments [of "counted_state\<lparr>r := None\<rparr>" counted_world]
    visit_increments [of counted_state store_down_world]
  by (simp add: counted_world_def counted_state_def demo_world_def demo_state_def
      store_down_world_def)

text \<open>
  C3 as stated fails. The process holds the cache connection and the store connection,
  the store answers and its row has total 3, the process's own counter is 0, and the
  cache server does not answer. Then \<open>visit\<close> ends with the cache's fault and has
  incremented nothing: the cache key is still 7, the process's own counter still 0,
  and the row of the available store still has total 3.
\<close>

theorem visit_cache_down_counterexample:
  "r demo_state = Some (RedisConn ''redis://cache'') \<and>
   pg demo_state = Some (PgConn ''host=db'') \<and>
   pg_up cache_down_world \<and>
   fst (visit cache_down_world demo_state) = Inl RedisConnectionError \<and>
   redis_kv (fst (snd (visit cache_down_world demo_state))) ''visits:total'' = Some 7 \<and>
   memory_counters (snd (snd (visit cache_down_world demo_state))) = 0 \<and>
   site_counters (fst (snd (visit cache_down_world demo_state))) = Some (3, 2)"
  by (simp add: visit_def redis_incr_def cache_down_world_def counted_world_def
      demo_world_def demo_state_def)

section \<open>Faults in the counter endpoints\<close>

lemma visit_cache_fault:
  "r s \<noteq> None \<Longrightarrow> \<not> redis_up w \<Longrightarrow> visit w s = (Inl RedisConnectionError, w, s)"
  by (simp add: visit_def redis_incr_def)

lemma total_cache_fault:
  "r s \<noteq> None \<Longrightarrow> \<not> redis_up w \<Longrightarrow> total w s = (Inl RedisConnectionError, w, s)"
  by (simp add: total_def redis_get_def)

lemma visit_store_fault:
  "pg s \<noteq> None \<Longrightarrow> \<not> pg_up w \<Longrightarrow> r s \<noteq> None \<longrightarrow> redis_up w \<Longrightarrow>
   fst (visit w s) = Inl OperationalError"
  by (auto simp: visit_def redis_incr_def update_site_counters_def)

lemma total_store_fault:
  "pg s \<noteq> None \<Longrightarrow> \<not> pg_up w \<Longrightarrow>
   r s = None \<or> (redis_up w \<and> redis_kv w ''visits:total'' = None) \<Longrightarrow>
   total w s = (Inl OperationalError, w, s)"
  by (auto simp: total_def total_from_pg_def redis_get_def select_site_counters_def)

lemma visit_flags:
  "r (snd (snd (visit w s))) = r s \<and> pg (snd (snd (visit w s))) = pg s \<and>
   logged (fst (snd (visit w s))) = logged w"
  by (auto simp: visit_def redis_incr_def update_site_counters_def split: option.splits)

lemma total_flags: "snd (total w s) = (w, s)"
  by (auto simp: total_def total_from_pg_def split: option.splits sum.splits)

lemma try_connect_redis_down:
  "REDIS_URL s = Some url \<Longrightarrow> url \<noteq> [] \<Longrightarrow> \<not> redis_up w \<Longrightarrow>
   try_connect_redis w s =
     (None, w\<lparr>logged := Error ''Redis connect failed'' # logged w\<rparr>, s\<lparr>r := None\<rparr>)"
  by (simp add: try_connect_redis_def)

text \<open>
  C4, as the code has it. A fault while connecting is caught: it is logged and the
  dependency is left unavailable. A fault of a cache or store operation inside
  \<open>visit\<close> or \<open>total\<close> is not caught: the call ends with that fault (the caller gets a
  server error), no fallback is taken, nothing is logged and both availability flags
  stay as they were.
\<close>

theorem counter_fault_propagates:
  "(r s \<noteq> None \<and> \<not> redis_up w \<longrightarrow>
      visit w s = (Inl RedisConnectionError, w, s) \<and>
      total w s = (Inl RedisConnectionError, w, s)) \<and>
   (pg s \<noteq> None \<and> \<not> pg_up w \<and> (r s \<noteq> None \<longrightarrow> redis_up w) \<longrightarrow>
      fst (visit w s) = Inl OperationalError) \<and>
   (pg s \<noteq> None \<and> \<not> pg_up w \<and>
    (r s = None \<or> (redis_up w \<and> redis_kv w ''visits:total'' = None)) \<longrightarrow>
      total w s = (Inl OperationalError, w, s)) \<and>
   r (snd (snd (visit w s))) = r s \<and> pg (snd (snd (visit w s))) = pg s \<and>
   logged (fst (snd (visit w s))) = logged w \<and>
   snd (total w s) = (w, s) \<and>
   (REDIS_URL s = Some url \<and> url \<noteq> [] \<and> \<not> redis_up w \<longrightarrow>
      try_connect_redis w s =
        (None, w\<lparr>logged := Error ''Redis connect failed'' # logged w\<rparr>, s\<lparr>r := None\<rparr>)) \<and>
   (PG_DSN s = Some dsn \<and> dsn \<noteq> [] \<and> \<not> pg_up w \<longrightarrow>
      try_connect_pg w s =
        (None,
         w\<lparr>pg_connects := dsn # pg_connects w,
           logged := Error ''PG connect/init failed'' # logged w\<rparr>,
         s\<lparr>pg := None\<rparr>))"
  using visit_cache_fault [of s w] total_cache_fault [of s w] visit_store_fault [of s w]
    total_store_fault [of s w] visit_flags [of w s] total_flags [of w s]
    try_connect_redis_down [of s url w] try_connect_pg_down [of s dsn w]
  by blast

theorem counter_fault_propagates_witness:
  "visit cache_down_world counted_state = (Inl RedisConnectionError, cache_down_world, counted_state) \<and>
   fst (visit store_down_world counted_state) = Inl OperationalError \<and>
   total store_down_world (counted_state\<lparr>r := None\<rparr>) =
     (Inl OperationalError, store_down_world, counted_state\<lparr>r := None\<rparr>) \<and>
   try_connect_redis cache_down_world counted_state =
     (None, cache_down_world\<lparr>logged := [Error ''Redis connect failed'']\<rparr>,
      counted_state\<lparr>r := None\<rparr>)"
proof -
  have a: "r counted_state \<noteq> None" "pg counted_state \<noteq> None"
    "REDIS_URL counted_state = Some ''redis://cache''"
    by (simp_all add: counted_state_def demo_state_def)
  have b: "\<not> redis_up cache_down_world" "\<not> pg_up store_down_world"
    "redis_up store_down_world" "logged cache_down_world = []"
    by (simp_all add: cache_down_world_def store_down_world_def counted_world_def demo_world_def)
  from counter_fault_propagates [of counted_state cache_down_world "''redis://cache''" "[]"] a b
  have 1: "visit cache_down_world counted_state =
      (Inl RedisConnectionError, cache_down_world, counted_state)"
    and 4: "try_connect_redis cache_down_world counted_state =
     (None, cache_down_world\<lparr>logged := [Error ''Redis connect failed'']\<rparr>,
      counted_state\<lparr>r := None\<rparr>)"
    by simp_all
  from counter_fault_propagates [of counted_state store_down_world "[]" "[]"] a b
  have 2: "fst (visit store_down_world counted_state) = Inl OperationalError"
    by simp
  from counter_fault_propagates [of "counted_state\<lparr>r := None\<rparr>" store_down_world "[]" "[]"] a b
  have 3: "total store_down_world (counted_state\<lparr>r := None\<rparr>) =
     (Inl OperationalError, store_down_world, counted_state\<lparr>r := None\<rparr>)"
    by simp
  from 1 2 3 4 show ?thesis by blast
qed

text \<open>
  C4 as stated fails: with a cache connection held and the cache server down, both
  counter endpoints end with the cache's fault, which the framework answers with
  status 500; the cache flag is still set afterwards, the log is empty and the
  process's own counter has not moved.
\<close>

theorem counter_fault_surfaces_counterexample:
  "visit cache_down_world counted_state =
     (Inl RedisConnectionError, cache_down_world, counted_state) \<and>
   total cache_down_world counted_state =
     (Inl RedisConnectionError, cache_down_world, counted_state) \<and>
   http_status (fst (visit cache_down_world counted_state)) = 500 \<and>
   http_status (fst (total cache_down_world counted_state)) = 500 \<and>
   r (snd (snd (visit cache_down_world counted_state))) = Some (RedisConn ''redis://cache'') \<and>
   logged (fst (snd (visit cache_down_world counted_state))) = [] \<and>
   memory_counters (snd (snd (visit cache_down_world counted_state))) = 1"
  by (simp add: visit_def total_def redis_incr_def redis_get_def cache_down_world_def
      counted_world_def counted_state_def demo_world_def demo_state_def)

section \<open>The store requirement of the auth endpoints\<close>

lemma require_pg_held: "pg s \<noteq> None \<Longrightarrow> require_pg w s = (Inr (), w, s)"
  by (auto simp: require_pg_def)

lemma require_pg_unset:
  "pg s = None \<Longrightarrow> PG_DSN s = None \<or> PG_DSN s = Some [] \<Longrightarrow>
   require_pg w s = (Inl (HTTPException 503 ''PostgreSQL is not configured/available.''), w, s)"
  by (simp add: require_pg_def try_connect_pg_unset)

lemma require_pg_down:
  "pg s = None \<Longrightarrow> PG_DSN s = Some dsn \<Longrightarrow> dsn \<noteq> [] \<Longrightarrow> \<not> pg_up w \<Longrightarrow>
   require_pg w s =
     (Inl (HTTPException 503 ''PostgreSQL is not configured/available.''),
      w\<lparr>pg_connects := dsn # pg_connects w,
        logged := Error ''PG connect/init failed'' # logged w\<rparr>, s)"
  by (simp add: require_pg_def try_connect_pg_down)

lemma require_pg_up:
  "pg s = None \<Longrightarrow> PG_DSN s = Some dsn \<Longrightarrow> dsn \<noteq> [] \<Longrightarrow> pg_up w \<Longrightarrow>
   require_pg w s =
     (Inr (),
      w\<lparr>pg_connects := dsn # pg_connects w,
        site_counters := (case site_counters w of None \<Rightarrow> Some (0, pg_now w) | Some row \<Rightarrow> Some row),
        logged := Info ''PG connected and schema ensured'' # logged w\<rparr>,
      s\<lparr>pg := Some (PgConn dsn)\<rparr>)"
  by (simp add: require_pg_def try_connect_pg_up)

lemma require_pg_snd:
  "snd (require_pg w s) = (if pg s = None then snd (try_connect_pg w s) else (w, s))"
  by (auto simp: require_pg_def split_beta)

lemma login_snd: "snd (login L b w s) = snd (require_pg w s)"
  by (simp add: login_def Let_def split: prod.splits sum.splits option.splits)

lemma register_unset:
  "pg s = None \<Longrightarrow> PG_DSN s = None \<or> PG_DSN s = Some [] \<Longrightarrow>
   register L salt b w s =
     (Inl (HTTPException 503 ''PostgreSQL is not configured/available.''), w, s)"
  by (simp add: register_def require_pg_unset)

lemma login_unset:
  "pg s = None \<Longrightarrow> PG_DSN s = None \<or> PG_DSN s = Some [] \<Longrightarrow>
   login L b w s =
     (Inl (HTTPException 503 ''PostgreSQL is not configured/available.''), w, s)"
  by (simp add: login_def require_pg_unset)

lemma login_down:
  "pg s = None \<Longrightarrow> PG_DSN s = Some dsn \<Longrightarrow> dsn \<noteq> [] \<Longrightarrow> \<not> pg_up w \<Longrightarrow>
   login L b w s =
     (Inl (HTTPException 503 ''PostgreSQL is not configured/available.''),
      w\<lparr>pg_connects := dsn # pg_connects w,
        logged := Error ''PG connect/init failed'' # logged w\<rparr>, s)"
  by (simp add: login_def require_pg_down)

lemma register_down:
  "pg s = None \<Longrightarrow> PG_DSN s = Some dsn \<Longrightarrow> dsn \<noteq> [] \<Longrightarrow> \<not> pg_up w \<Longrightarrow>
   register L salt b w s =
     (Inl (HTTPException 503 ''PostgreSQL is not configured/available.''),
      w\<lparr>pg_connects := dsn # pg_connects w,
        logged := Error ''PG connect/init failed'' # logged w\<rparr>, s)"
  by (simp add: register_def require_pg_down)

lemma login_up:
  assumes "pg s = None" "PG_DSN s = Some dsn" "dsn \<noteq> []" "pg_up w"
  shows "pg_connects (fst (snd (login L b w s))) = dsn # pg_connects w"
    and "pg (snd (snd (login L b w s))) = Some (PgConn dsn)"
    and "\<exists>v. fst (login L b w s) = Inr v"
  using assms
  by (simp_all add: login_def require_pg_up select_user_def Let_def split: option.splits)

lemma register_up:
  assumes "pg s = None" "PG_DSN s = Some dsn" "dsn \<noteq> []" "pg_up w"
  shows "pg_connects (fst (snd (register L salt b w s))) = dsn # pg_connects w"
    and "pg (snd (snd (register L salt b w s))) = Some (PgConn dsn)"
    and "fst (register L salt b w s) = Inr (JObj [(''ok'', JBool True)]) \<or>
         fst (register L salt b w s) = Inl UniqueViolation"
  using assms
  by (simp_all add: register_def require_pg_up insert_user_def Let_def)

lemma try_connect_pg_environ:
  "try_connect_pg (w\<lparr>environ := env\<rparr>) s =
     (fst (try_connect_pg w s), (fst (snd (try_connect_pg w s)))\<lparr>environ := env\<rparr>,
      snd (snd (try_connect_pg w s)))"
  by (simp add: try_connect_pg_def Let_def split: option.splits)

lemma require_pg_environ:
  "require_pg (w\<lparr>environ := env\<rparr>) s =
     (fst (require_pg w s), (fst (snd (require_pg w s)))\<lparr>environ := env\<rparr>,
      snd (snd (require_pg w s)))"
  by (auto simp: require_pg_def try_connect_pg_environ split_beta)

lemma login_environ: "fst (login L b (w\<lparr>environ := env\<rparr>) s) = fst (login L b w s)"
  by (cases "require_pg w s")
    (auto simp: login_def require_pg_environ select_user_def Let_def
      split: sum.splits option.splits)

lemma register_environ:
  "fst (register L salt b (w\<lparr>environ := env\<rparr>) s) = fst (register L salt b w s)"
  by (cases "require_pg w s")
    (auto simp: register_def require_pg_environ insert_user_def Let_def
      split: sum.splits option.splits)

lemma login_config: "PG_DSN (snd (snd (login L b w s))) = PG_DSN s"
  by (auto simp: login_snd require_pg_snd try_connect_pg_config)

text \<open>
  C5, as the code has it. An auth call made while the process holds no store connection
  calls \<open>try_connect_pg\<close> once. If no connection string was configured when the process
  started, no connection is attempted and the call answers 503 with the message; if one
  was configured, exactly one connection is attempted, and the call answers 503 with
  the message when the attempt fails, and goes on to its query when it succeeds, with
  the connection kept for later calls. The connection string is the one read at start:
  the endpoints neither change it nor look at the environment again.
\<close>

theorem auth_reconnects_once:
  assumes "pg s = None"
  shows
    "(PG_DSN s = None \<or> PG_DSN s = Some [] \<longrightarrow>
        login L b w s =
          (Inl (HTTPException 503 ''PostgreSQL is not configured/available.''), w, s) \<and>
        register L salt b w s =
          (Inl (HTTPException 503 ''PostgreSQL is not configured/available.''), w, s)) \<and>
     (PG_DSN s = Some dsn \<and> dsn \<noteq> [] \<and> \<not> pg_up w \<longrightarrow>
        fst (login L b w s) =
          Inl (HTTPException 503 ''PostgreSQL is not configured/available.'') \<and>
        fst (register L salt b w s) =
          Inl (HTTPException 503 ''PostgreSQL is not configured/available.'') \<and>
        pg_connects (fst (snd (login L b w s))) = dsn # pg_connects w \<and>
        pg_connects (fst (snd (register L salt b w s))) = dsn # pg_connects w) \<and>
     (PG_DSN s = Some dsn \<and> dsn \<noteq> [] \<and> pg_up w \<longrightarrow>
        pg_connects (fst (snd (login L b w s))) = dsn # pg_connects w \<and>
        pg (snd (snd (login L b w s))) = Some (PgConn dsn) \<and>
        (\<exists>v. fst (login L b w s) = Inr v) \<and>
        pg_connects (fst (snd (register L salt b w s))) = dsn # pg_connects w \<and>
        pg (snd (snd (register L salt b w s))) = Some (PgConn dsn) \<and>
        (fst (register L salt b w s) = Inr (JObj [(''ok'', JBool True)]) \<or>
         fst (register L salt b w s) = Inl UniqueViolation)) \<and>
     PG_DSN (snd (snd (login L b w s))) = PG_DSN s \<and>
     fst (login L b (w\<lparr>environ := env\<rparr>) s) = fst (login L b w s) \<and>
     fst (register L salt b (w\<lparr>environ := env\<rparr>) s) = fst (register L salt b w s)"
proof -
  have unset: "login L b w s =
          (Inl (HTTPException 503 ''PostgreSQL is not configured/available.''), w, s) \<and>
        register L salt b w s =
          (Inl (HTTPException 503 ''PostgreSQL is not configured/available.''), w, s)"
    if "PG_DSN s = None \<or> PG_DSN s = Some []"
    using assms that by (simp add: login_unset register_unset)
  have down: "fst (login L b w s) =
          Inl (HTTPException 503 ''PostgreSQL is not configured/available.'') \<and>
        fst (register L salt b w s) =
          Inl (HTTPException 503 ''PostgreSQL is not configured/available.'') \<and>
        pg_connects (fst (snd (login L b w s))) = dsn # pg_connects w \<and>
        pg_connects (fst (snd (register L salt b w s))) = dsn # pg_connects w"
    if "PG_DSN s = Some dsn" "dsn \<noteq> []" "\<not> pg_up w"
    using assms that by (simp add: login_down register_down)
  have up: "pg_connects (fst (snd (login L b w s))) = dsn # pg_connects w \<and>
        pg (snd (snd (login L b w s))) = Some (PgConn dsn) \<and>
        (\<exists>v. fst (login L b w s) = Inr v) \<and>
        pg_connects (fst (snd (register L salt b w s))) = dsn # pg_connects w \<and>
        pg (snd (snd (register L salt b w s))) = Some (PgConn dsn) \<and>
        (fst (register L salt b w s) = Inr (JObj [(''ok'', JBool True)]) \<or>
         fst (register L salt b w s) = Inl UniqueViolation)"
    if "PG_DSN s = Some dsn" "dsn \<noteq> []" "pg_up w"
    using login_up [OF assms that, of L b] register_up [OF assms that, of L salt b]
    by blast
  from unset down up login_config login_environ register_environ
  show ?thesis by blast
qed

theorem auth_reconnects_once_witness:
  "fst (login demo_libs demo_creds demo_world cold_state) = Inr (JObj [(''ok'', JBool False)], []) \<and>
   pg (snd (snd (login demo_libs demo_creds demo_world cold_state))) = Some (PgConn ''host=db'') \<and>
   pg_connects (fst (snd (login demo_libs demo_creds demo_world cold_state))) = [''host=db''] \<and>
   fst (login demo_libs demo_creds (demo_world\<lparr>pg_up := False\<rparr>) cold_state) =
     Inl (HTTPException 503 ''PostgreSQL is not configured/available.'') \<and>
   pg_connects (fst (snd (login demo_libs demo_creds (demo_world\<lparr>pg_up := False\<rparr>) cold_state))) =
     [''host=db'']"
proof -
  have c: "pg cold_state = None" by (simp add: cold_state_def)
  have d: "PG_DSN cold_state = Some ''host=db''"
    by (simp add: cold_state_def demo_state_def)
  have u: "pg_up demo_world" "pg_connects demo_world = []" "users demo_world = []"
    by (simp_all add: demo_world_def)
  from auth_reconnects_once [OF c, where dsn = "''host=db''" and w = demo_world
      and L = demo_libs and b = demo_creds and salt = "[]" and env = Map.empty] d u
  have 1: "pg (snd (snd (login demo_libs demo_creds demo_world cold_state))) = Some (PgConn ''host=db'')"
    and 2: "pg_connects (fst (snd (login demo_libs demo_creds demo_world cold_state))) = [''host=db'']"
    by simp_all
  from auth_reconnects_once [OF c, where dsn = "''host=db''"
      and w = "demo_world\<lparr>pg_up := False\<rparr>"
      and L = demo_libs and b = demo_creds and salt = "[]" and env = Map.empty] d u
  have 3: "fst (login demo_libs demo_creds (demo_world\<lparr>pg_up := False\<rparr>) cold_state) =
     Inl (HTTPException 503 ''PostgreSQL is not configured/available.'')"
    and 4: "pg_connects (fst (snd (login demo_libs demo_creds (demo_world\<lparr>pg_up := False\<rparr>) cold_state))) =
     [''host=db'']"
    by simp_all
  have 0: "fst (login demo_libs demo_creds demo_world cold_state) = Inr (JObj [(''ok'', JBool False)], [])"
    using c d u by (simp add: login_def require_pg_up select_user_def)
  from 0 1 2 3 4 show ?thesis by blast
qed

lemma startup_demo:
  "startup demo_world =
     (demo_world,
      \<lparr>JWT_SECRET = ''change_me'', SECURE_COOKIES = False, PG_DSN = None, REDIS_URL = None,
       pg = None, r = None, memory_counters = 0\<rparr>)"
  by (simp add: startup_def demo_world_def getenv_def configure_PG_DSN_def
      try_connect_pg_def try_connect_redis_def py_lower_def lower_char_def
      upper_letters_def lower_letters_def)

lemma first_call_eq:
  "first_call =
     (Inl (HTTPException 503 ''PostgreSQL is not configured/available.''),
      demo_world,
      \<lparr>JWT_SECRET = ''change_me'', SECURE_COOKIES = False, PG_DSN = None, REDIS_URL = None,
       pg = None, r = None, memory_counters = 0\<rparr>)"
  by (simp add: first_call_def startup_demo login_unset)

text \<open>
  C5 as stated fails on its example. A process started with \<open>PG_DSN\<close> unset answers 503
  to an auth call; the variable is then set to a connection string under which the
  store answers (a process started with it would connect), and the next auth call
  answers 503 again, without any connection having been attempted.
\<close>

theorem lazy_reconnect_env_counterexample:
  "environ (fst (startup demo_world)) ''PG_DSN'' = None \<and>
   fst first_call = Inl (HTTPException 503 ''PostgreSQL is not configured/available.'') \<and>
   environ switched_world ''PG_DSN'' = Some ''host=db'' \<and>
   pg_up switched_world \<and>
   pg (snd (startup switched_world)) = Some (PgConn ''host=db'') \<and>
   fst second_call = Inl (HTTPException 503 ''PostgreSQL is not configured/available.'') \<and>
   pg_connects (fst (snd second_call)) = []"
proof -
  have sw: "switched_world = demo_world\<lparr>environ := [''PG_DSN'' \<mapsto> ''host=db'']\<rparr>"
    by (simp add: switched_world_def first_call_eq)
  have sc: "second_call =
     (Inl (HTTPException 503 ''PostgreSQL is not configured/available.''),
      switched_world,
      \<lparr>JWT_SECRET = ''change_me'', SECURE_COOKIES = False, PG_DSN = None, REDIS_URL = None,
       pg = None, r = None, memory_counters = 0\<rparr>)"
    by (simp add: second_call_def first_call_eq login_unset)
  have st: "pg (snd (startup switched_world)) = Some (PgConn ''host=db'')"
    by (simp add: sw startup_def demo_world_def getenv_def configure_PG_DSN_def
        try_connect_pg_def try_connect_redis_def Let_def)
  show ?thesis
    by (simp add: startup_demo first_call_eq sc st) (simp add: sw demo_world_def)
qed

section \<open>What login changes\<close>

lemma try_connect_pg_frame:
  "users (fst (snd (try_connect_pg w s))) = users w \<and>
   users_id_seq (fst (snd (try_connect_pg w s))) = users_id_seq w \<and>
   pg_up (fst (snd (try_connect_pg w s))) = pg_up w \<and>
   pg_now (fst (snd (try_connect_pg w s))) = pg_now w \<and>
   redis_kv (fst (snd (try_connect_pg w s))) = redis_kv w \<and>
   redis_up (fst (snd (try_connect_pg w s))) = redis_up w \<and>
   memory_counters (snd (snd (try_connect_pg w s))) = memory_counters s \<and>
   r (snd (snd (try_connect_pg w s))) = r s \<and>
   JWT_SECRET (snd (snd (try_connect_pg w s))) = JWT_SECRET s \<and>
   SECURE_COOKIES (snd (snd (try_connect_pg w s))) = SECURE_COOKIES s"
  by (simp add: try_connect_pg_def Let_def split: option.splits)

lemma try_connect_pg_row:
  "site_counters w = Some row \<Longrightarrow> site_counters (fst (snd (try_connect_pg w s))) = Some row"
  by (simp add: try_connect_pg_def Let_def split: option.splits)

lemma require_pg_frame:
  "users (fst (snd (require_pg w s))) = users w \<and>
   users_id_seq (fst (snd (require_pg w s))) = users_id_seq w \<and>
   pg_up (fst (snd (require_pg w s))) = pg_up w \<and>
   pg_now (fst (snd (require_pg w s))) = pg_now w \<and>
   redis_kv (fst (snd (require_pg w s))) = redis_kv w \<and>
   redis_up (fst (snd (require_pg w s))) = redis_up w \<and>
   memory_counters (snd (snd (require_pg w s))) = memory_counters s \<and>
   r (snd (snd (require_pg w s))) = r s \<and>
   JWT_SECRET (snd (snd (require_pg w s))) = JWT_SECRET s \<and>
   SECURE_COOKIES (snd (snd (require_pg w s))) = SECURE_COOKIES s"
  using try_connect_pg_frame [of w s] by (simp add: require_pg_snd)

lemma login_cookies:
  assumes "fst (login L b w s) = Inr (body, cs)"
  shows "(body = JObj [(''ok'', JBool False)] \<and> cs = []) \<or>
   (body = JObj [(''ok'', JBool True)] \<and>
    (\<exists>token. cs = [\<lparr>cookie_name = ''access_token'', cookie_value = token, httponly = True,
                    samesite = ''Lax'', secure = SECURE_COOKIES s\<rparr>]))"
proof -
  obtain res w1 s1 where rp: "require_pg w s = (res, w1, s1)"
    by (cases "require_pg w s") auto
  have sec: "SECURE_COOKIES s1 = SECURE_COOKIES s"
    using require_pg_frame [of w s] by (simp add: rp)
  show ?thesis
    using assms
    by (auto simp: login_def rp sec Let_def split: sum.splits option.splits if_splits)
qed

text \<open>
  C9, as the code has it. login sets a cookie only when it answers \<open>ok: true\<close>, and
  then exactly the \<open>access_token\<close> cookie; with \<open>ok: false\<close> no cookie is set. It
  never writes the \<open>users\<close> table, the cache or the process's own counter, and never
  changes the cache flag. When the process holds a store connection, login changes
  nothing at all. When it holds none, what changes is what the one attempt to connect
  changes and nothing more: the attempt is recorded and logged, a success sets the
  store flag and creates the \<open>site_counters\<close> row if there was none; a row that exists
  is left as it is.
\<close>

theorem login_frame:
  "snd (login L b w s) = (if pg s = None then snd (try_connect_pg w s) else (w, s)) \<and>
   users (fst (snd (login L b w s))) = users w \<and>
   redis_kv (fst (snd (login L b w s))) = redis_kv w \<and>
   memory_counters (snd (snd (login L b w s))) = memory_counters s \<and>
   r (snd (snd (login L b w s))) = r s \<and>
   (\<forall>row. site_counters w = Some row \<longrightarrow>
      site_counters (fst (snd (login L b w s))) = Some row) \<and>
   (\<forall>body cs. fst (login L b w s) = Inr (body, cs) \<longrightarrow>
      (body = JObj [(''ok'', JBool False)] \<and> cs = []) \<or>
      (body = JObj [(''ok'', JBool True)] \<and>
       (\<exists>token. cs = [\<lparr>cookie_name = ''access_token'', cookie_value = token,
                       httponly = True, samesite = ''Lax'',
                       secure = SECURE_COOKIES s\<rparr>])))"
proof -
  have a: "snd (login L b w s) = (if pg s = None then snd (try_connect_pg w s) else (w, s))"
    by (simp add: login_snd require_pg_snd)
  have b: "users (fst (snd (login L b w s))) = users w \<and>
   redis_kv (fst (snd (login L b w s))) = redis_kv w \<and>
   memory_counters (snd (snd (login L b w s))) = memory_counters s \<and>
   r (snd (snd (login L b w s))) = r s"
    using require_pg_frame [of w s] by (simp add: login_snd)
  have c: "site_counters (fst (snd (login L b w s))) = Some row"
    if "site_counters w = Some row" for row
    using that try_connect_pg_row [of w row s] by (simp add: a)
  from a b c login_cookies [of L b w s] show ?thesis by blast
qed

theorem login_frame_witness:
  "snd (login demo_libs demo_creds demo_world demo_state) = (demo_world, demo_state) \<and>
   fst (login demo_libs demo_creds demo_world demo_state) = Inr (JObj [(''ok'', JBool False)], []) \<and>
   site_counters (fst (snd (login demo_libs demo_creds demo_world cold_state))) = Some (0, 0)"
proof -
  have p: "pg demo_state \<noteq> None" by (simp add: demo_state_def)
  have q: "site_counters demo_world = Some (0, 0)" by (simp add: demo_world_def)
  have 0: "fst (login demo_libs demo_creds demo_world demo_state) = Inr (JObj [(''ok'', JBool False)], [])"
    using p by (simp add: login_def require_pg_held select_user_def) (simp add: demo_world_def)
  from login_frame [of demo_libs demo_creds demo_world demo_state] p
  have 1: "snd (login demo_libs demo_creds demo_world demo_state) = (demo_world, demo_state)"
    by simp
  from login_frame [of demo_libs demo_creds demo_world cold_state] q
  have 2: "site_counters (fst (snd (login demo_libs demo_creds demo_world cold_state))) = Some (0, 0)"
    by blast
  from 0 1 2 show ?thesis by blast
qed

text \<open>
  C9 as stated fails in its last part. A login with an unknown email, made while the
  process holds no connection to a store that answers, returns \<open>ok: false\<close> with no
  cookie, and afterwards the store flag is set, a connection has been made and logged,
  and the \<open>site_counters\<close> row, absent before, exists with total 0.
\<close>

theorem login_reconnect_writes_counterexample:
  "fst (login demo_libs demo_creds rowless_world cold_state) =
     Inr (JObj [(''ok'', JBool False)], []) \<and>
   pg cold_state = None \<and>
   pg (snd (snd (login demo_libs demo_creds rowless_world cold_state))) = Some (PgConn ''host=db'') \<and>
   site_counters rowless_world = None \<and>
   site_counters (fst (snd (login demo_libs demo_creds rowless_world cold_state))) = Some (0, 5) \<and>
   pg_connects (fst (snd (login demo_libs demo_creds rowless_world cold_state))) = [''host=db''] \<and>
   logged (fst (snd (login demo_libs demo_creds rowless_world cold_state))) =
     [Info ''PG connected and schema ensured'']"
proof -
  have c: "pg cold_state = None" "PG_DSN cold_state = Some ''host=db''"
    by (simp_all add: cold_state_def demo_state_def)
  have u: "pg_up rowless_world" "users rowless_world = []" "site_counters rowless_world = None"
    "pg_now rowless_world = 5" "pg_connects rowless_world = []" "logged rowless_world = []"
    by (simp_all add: rowless_world_def demo_world_def)
  show ?thesis
    using c u by (simp add: login_def require_pg_up select_user_def)
qed

section \<open>Registration followed by login\<close>

lemma require_pg_available:
  assumes "pg_up w" and "pg s \<noteq> None \<or> (\<exists>dsn. PG_DSN s = Some dsn \<and> dsn \<noteq> [])"
  shows "fst (require_pg w s) = Inr ()" and "pg (snd (snd (require_pg w s))) \<noteq> None"
proof -
  show "fst (require_pg w s) = Inr ()"
  proof (cases "pg s = None")
    case True
    with assms obtain dsn where "PG_DSN s = Some dsn" "dsn \<noteq> []" by auto
    with True assms(1) show ?thesis by (simp add: require_pg_up)
  next
    case False
    then show ?thesis by (simp add: require_pg_held)
  qed
  show "pg (snd (snd (require_pg w s))) \<noteq> None"
  proof (cases "pg s = None")
    case True
    with assms obtain dsn where "PG_DSN s = Some dsn" "dsn \<noteq> []" by auto
    with True assms(1) show ?thesis by (simp add: require_pg_up)
  next
    case False
    then show ?thesis by (simp add: require_pg_held)
  qed
qed

lemma find_fresh_append:
  "\<forall>u \<in> set xs. \<not> P u \<Longrightarrow> P x \<Longrightarrow> find P (xs @ [x]) = Some x"
  by (induction xs) simp_all

lemma find_None_fresh: "\<forall>u \<in> set xs. \<not> P u \<Longrightarrow> find P xs = None"
  by (induction xs) simp_all

text \<open>
  C1. Let the store answer and be available to the process (a connection is held, or a
  connection string is configured so that the reconnect succeeds), let no stored user
  have the lower-cased email, and let the hash library accept the password against its
  own hash and reject the other password against it. Then \<open>register\<close> answers
  \<open>ok: true\<close>; a following \<open>login\<close> with the same password and any case variant of the
  email answers \<open>ok: true\<close> and sets the \<open>access_token\<close> cookie, whose value is the token
  for the identifier the new user got; a following \<open>login\<close> with the same email and the
  other password answers \<open>ok: false\<close> and sets no cookie.
\<close>

theorem register_then_login:
  assumes up: "pg_up w"
    and avail: "pg s \<noteq> None \<or> (\<exists>dsn. PG_DSN s = Some dsn \<and> dsn \<noteq> [])"
    and fresh: "\<forall>u \<in> set (users w). user_email u \<noteq> sql_lower e"
    and variant: "case_variant e e'"
    and accept: "checkpw L p (hashpw L p salt)"
    and reject: "\<not> checkpw L p' (hashpw L p salt)"
  shows "fst (register L salt \<lparr>email = e, password = p\<rparr> w s) = Inr (JObj [(''ok'', JBool True)]) \<and>
    fst (login L \<lparr>email = e', password = p\<rparr>
          (fst (snd (register L salt \<lparr>email = e, password = p\<rparr> w s)))
          (snd (snd (register L salt \<lparr>email = e, password = p\<rparr> w s)))) =
      Inr (JObj [(''ok'', JBool True)],
           [\<lparr>cookie_name = ''access_token'',
             cookie_value = jwt_encode L (users_id_seq w) (JWT_SECRET s),
             httponly = True, samesite = ''Lax'', secure = SECURE_COOKIES s\<rparr>]) \<and>
    fst (login L \<lparr>email = e, password = p'\<rparr>
          (fst (snd (register L salt \<lparr>email = e, password = p\<rparr> w s)))
          (snd (snd (register L salt \<lparr>email = e, password = p\<rparr> w s)))) =
      Inr (JObj [(''ok'', JBool False)], [])"
proof -
  obtain res w1 s1 where rp: "require_pg w s = (res, w1, s1)"
    by (cases "require_pg w s") auto
  have res: "res = Inr ()" and held: "pg s1 \<noteq> None"
    using require_pg_available [OF up avail] by (simp_all add: rp)
  have fr: "users w1 = users w" "users_id_seq w1 = users_id_seq w" "pg_up w1"
    "pg_now w1 = pg_now w" "JWT_SECRET s1 = JWT_SECRET s" "SECURE_COOKIES s1 = SECURE_COOKIES s"
    using require_pg_frame [of w s] up by (simp_all add: rp)
  define row where "row = \<lparr>user_id = users_id_seq w, user_email = sql_lower e,
      password_hash = hashpw L p salt, created_at = pg_now w\<rparr>"
  define w2 where "w2 = w1\<lparr>users_id_seq := users_id_seq w + 1, users := users w @ [row]\<rparr>"
  have ins: "insert_user (sql_lower e) (hashpw L p salt) w1 = (Inr (), w2)"
    using fresh fr by (simp add: insert_user_def Let_def w2_def row_def)
  have reg: "register L salt \<lparr>email = e, password = p\<rparr> w s =
      (Inr (JObj [(''ok'', JBool True)]), w2, s1)"
    by (simp add: register_def rp res ins)
  have rp2: "require_pg w2 s1 = (Inr (), w2, s1)"
    using held by (rule require_pg_held)
  have up2: "pg_up w2" "users w2 = users w @ [row]"
    using fr by (simp_all add: w2_def)
  have same: "sql_lower e' = sql_lower e"
    using variant by (simp add: case_variant_lower)
  have found: "find (\<lambda>u. user_email u = sql_lower e) (users w @ [row]) = Some row"
    using fresh by (intro find_fresh_append) (simp_all add: row_def)
  have good: "fst (login L \<lparr>email = e', password = p\<rparr> w2 s1) =
      Inr (JObj [(''ok'', JBool True)],
           [\<lparr>cookie_name = ''access_token'',
             cookie_value = jwt_encode L (users_id_seq w) (JWT_SECRET s),
             httponly = True, samesite = ''Lax'', secure = SECURE_COOKIES s\<rparr>])"
    using accept
    by (simp add: login_def rp2 select_user_def up2 same found fr) (simp add: row_def)
  have bad: "fst (login L \<lparr>email = e, password = p'\<rparr> w2 s1) =
      Inr (JObj [(''ok'', JBool False)], [])"
    using reject
    by (simp add: login_def rp2 select_user_def up2 found) (simp add: row_def)
  from good bad show ?thesis by (simp add: reg)
qed

lemma demo_lower: "sql_lower ''A@x.com'' = ''a@x.com''"
  by (simp add: sql_lower_def lower_char_def upper_letters_def lower_letters_def)

lemma demo_variant: "case_variant ''A@x.com'' ''a@X.com''"
  by (simp add: case_variant_def same_letter_def upper_letters_def lower_letters_def)

theorem register_then_login_witness:
  "fst (register demo_libs ''s1'' \<lparr>email = ''A@x.com'', password = ''secret''\<rparr> demo_world demo_state) =
     Inr (JObj [(''ok'', JBool True)]) \<and>
   fst (login demo_libs \<lparr>email = ''a@X.com'', password = ''secret''\<rparr>
         (fst (snd (register demo_libs ''s1'' \<lparr>email = ''A@x.com'', password = ''secret''\<rparr> demo_world demo_state)))
         (snd (snd (register demo_libs ''s1'' \<lparr>email = ''A@x.com'', password = ''secret''\<rparr> demo_world demo_state)))) =
     Inr (JObj [(''ok'', JBool True)],
          [\<lparr>cookie_name = ''access_token'', cookie_value = ''change_me:u'',
            httponly = True, samesite = ''Lax'', secure = False\<rparr>]) \<and>
   fst (login demo_libs \<lparr>email = ''A@x.com'', password = ''guess''\<rparr>
         (fst (snd (register demo_libs ''s1'' \<lparr>email = ''A@x.com'', password = ''secret''\<rparr> demo_world demo_state)))
         (snd (snd (register demo_libs ''s1'' \<lparr>email = ''A@x.com'', password = ''secret''\<rparr> demo_world demo_state)))) =
     Inr (JObj [(''ok'', JBool False)], [])"
proof -
  have up: "pg_up demo_world" by (simp add: demo_world_def)
  have avail: "pg demo_state \<noteq> None \<or> (\<exists>dsn. PG_DSN demo_state = Some dsn \<and> dsn \<noteq> [])"
    by (simp add: demo_state_def)
  have fresh: "\<forall>u \<in> set (users demo_world). user_email u \<noteq> sql_lower ''A@x.com''"
    by (simp add: demo_world_def)
  have accept: "checkpw demo_libs ''secret'' (hashpw demo_libs ''secret'' ''s1'')"
    by (simp add: demo_libs_def)
  have reject: "\<not> checkpw demo_libs ''guess'' (hashpw demo_libs ''secret'' ''s1'')"
    by (simp add: demo_libs_def)
  have tok: "jwt_encode demo_libs (users_id_seq demo_world) (JWT_SECRET demo_state) = ''change_me:u''"
    by (simp add: demo_libs_def demo_world_def demo_state_def)
  have sec: "SECURE_COOKIES demo_state = False" by (simp add: demo_state_def)
  from register_then_login [OF up avail fresh demo_variant accept reject]
  show ?thesis by (simp only: tok sec)
qed

text \<open>
  C6. A login with an email no stored user has and a login with a stored email whose
  password the hash library rejects give, from the same situation, the same answer and
  leave the same world and state behind; where the store answers and is available to
  the process, that answer is \<open>ok: false\<close> with no cookie.
\<close>

theorem login_failures_indistinguishable:
  assumes unknown: "\<forall>u \<in> set (users w). user_email u \<noteq> sql_lower e1"
    and known: "\<exists>u \<in> set (users w). user_email u = sql_lower e2"
    and wrong: "\<forall>u \<in> set (users w). user_email u = sql_lower e2 \<longrightarrow> \<not> checkpw L p2 (password_hash u)"
  shows "login L \<lparr>email = e1, password = p1\<rparr> w s = login L \<lparr>email = e2, password = p2\<rparr> w s \<and>
    (pg_up w \<and> (pg s \<noteq> None \<or> (\<exists>dsn. PG_DSN s = Some dsn \<and> dsn \<noteq> [])) \<longrightarrow>
       fst (login L \<lparr>email = e2, password = p2\<rparr> w s) = Inr (JObj [(''ok'', JBool False)], []))"
proof -
  obtain res w1 s1 where rp: "require_pg w s = (res, w1, s1)"
    by (cases "require_pg w s") auto
  have us: "users w1 = users w"
    using require_pg_frame [of w s] by (simp add: rp)
  have none: "find (\<lambda>u. user_email u = sql_lower e1) (users w) = None"
    using unknown by (intro find_None_fresh) simp
  obtain row where row: "find (\<lambda>u. user_email u = sql_lower e2) (users w) = Some row"
    using known by (cases "find (\<lambda>u. user_email u = sql_lower e2) (users w)")
      (auto simp: find_None_iff)
  then have "row \<in> set (users w)" "user_email row = sql_lower e2"
    by (auto simp: find_Some_iff)
  with wrong have rej: "\<not> checkpw L p2 (password_hash row)" by blast
  have l1: "login L \<lparr>email = e1, password = p1\<rparr> w s =
      (case res of Inl ex \<Rightarrow> (Inl ex, w1, s1)
       | Inr u \<Rightarrow> if pg_up w1 then (Inr (JObj [(''ok'', JBool False)], []), w1, s1)
                  else (Inl OperationalError, w1, s1))"
    by (simp add: login_def rp select_user_def us none split: sum.splits)
  have l2: "login L \<lparr>email = e2, password = p2\<rparr> w s =
      (case res of Inl ex \<Rightarrow> (Inl ex, w1, s1)
       | Inr u \<Rightarrow> if pg_up w1 then (Inr (JObj [(''ok'', JBool False)], []), w1, s1)
                  else (Inl OperationalError, w1, s1))"
    using rej by (simp add: login_def rp select_user_def us row split: sum.splits)
  have ok: "fst (login L \<lparr>email = e2, password = p2\<rparr> w s) = Inr (JObj [(''ok'', JBool False)], [])"
    if "pg_up w" "pg s \<noteq> None \<or> (\<exists>dsn. PG_DSN s = Some dsn \<and> dsn \<noteq> [])"
  proof -
    have "res = Inr ()" using require_pg_available(1) [OF that] by (simp add: rp)
    moreover have "pg_up w1" using require_pg_frame [of w s] that(1) by (simp add: rp)
    ultimately show ?thesis by (simp add: l2)
  qed
  from l1 l2 ok show ?thesis by simp
qed

theorem login_failures_indistinguishable_witness:
  "login demo_libs \<lparr>email = ''nobody@x.com'', password = ''secret''\<rparr> stored_world demo_state =
   login demo_libs \<lparr>email = ''A@x.com'', password = ''guess''\<rparr> stored_world demo_state \<and>
   fst (login demo_libs \<lparr>email = ''A@x.com'', password = ''guess''\<rparr> stored_world demo_state) =
     Inr (JObj [(''ok'', JBool False)], [])"
proof -
  have lo: "sql_lower ''nobody@x.com'' = ''nobody@x.com''"
    by (simp add: sql_lower_def lower_char_def upper_letters_def lower_letters_def)
  have us: "users stored_world = [\<lparr>user_id = 1, user_email = ''a@x.com'',
               password_hash = ''s1secret'', created_at = 0\<rparr>]"
    by (simp add: stored_world_def)
  have unknown: "\<forall>u \<in> set (users stored_world). user_email u \<noteq> sql_lower ''nobody@x.com''"
    by (simp add: us lo)
  have known: "\<exists>u \<in> set (users stored_world). user_email u = sql_lower ''A@x.com''"
    by (simp add: us demo_lower)
  have wrong: "\<forall>u \<in> set (users stored_world). user_email u = sql_lower ''A@x.com'' \<longrightarrow>
      \<not> checkpw demo_libs ''guess'' (password_hash u)"
    by (simp add: us demo_libs_def)
  have av: "pg_up stored_world" "pg demo_state \<noteq> None"
    by (simp_all add: stored_world_def demo_world_def demo_state_def)
  from login_failures_indistinguishable [OF unknown known wrong, of "''secret''" demo_state] av
  show ?thesis by simp
qed

end
